theory Spec2Isabelle
  imports Main
begin

section \<open>Promises\<close>

text \<open>
  Every provider operation is asynchronous: it returns a promise that later settles,
  either fulfilled with a value or rejected with a reason. A promise is modelled by the
  way it settles; the moment of settlement is an event of its own (\<open>settle\<close> for a
  query, \<open>run_reactions\<close> for a \<open>.then\<close> callback).
\<close>

datatype ('e, 'a) promise = Resolves 'a | Rejects 'e

section \<open>The data hook \<open>useOne\<close> (src/hooks/data/useOne.ts)\<close>

text \<open>\<open>IDataContext\<close>: the data provider read from the ambient \<open>DataContext\<close>.\<close>

record ('e, 'a) IDataContext =
  getOne :: "string \<Rightarrow> string \<Rightarrow> ('e, 'a) promise"

text \<open>
  \<open>QueryObserverResult\<close>: what the hook hands to the component, in one of the three
  fetch states (pending, success with the payload, failure with the error).
\<close>

datatype ('e, 'a) QueryObserverResult = QueryLoading | QuerySuccess 'a | QueryError 'e

text \<open>One entry of the query cache: a fetch in flight, or the settled outcome.\<close>

datatype ('e, 'a) query = Fetching "('e, 'a) promise" | Fetched "('e, 'a) QueryObserverResult"

text \<open>
  The state the hook runs in: the provider of the ambient context, the query cache
  keyed by query key, and the trace of the calls made to the provider's \<open>getOne\<close>
  (resource, id), oldest first.
\<close>

record ('e, 'a) app =
  DataContext :: "('e, 'a) IDataContext"
  queryCache :: "string \<rightharpoonup> ('e, 'a) query"
  getOne_calls :: "(string \<times> string) list"

text \<open>Calling the provider's \<open>getOne\<close>: the call is recorded, the promise returned.\<close>

definition call_getOne ::
  "(string \<Rightarrow> string \<Rightarrow> ('e, 'a) promise) \<Rightarrow> string \<Rightarrow> string \<Rightarrow> ('e, 'a) app
     \<Rightarrow> ('e, 'a) promise \<times> ('e, 'a) app" where
  "call_getOne g resource id' w =
     (g resource id', w\<lparr>getOne_calls := getOne_calls w @ [(resource, id')]\<rparr>)"

definition observe :: "('e, 'a) query \<Rightarrow> ('e, 'a) QueryObserverResult" where
  "observe q = (case q of Fetching p \<Rightarrow> QueryLoading | Fetched r \<Rightarrow> r)"

text \<open>
  Modelled from the spec: \<open>useQuery\<close> of the query-caching library (react-query), which
  the hook imports and whose code is not part of the repository. The spec describes it
  as a cache of fetch results under a query key: a key with no entry triggers the fetch
  function once and is pending from then on; a key with an entry is served from the
  cache (calls with the same key share the one request in flight), until the entry is
  invalidated.
\<close>

definition useQuery ::
  "string \<Rightarrow> (unit \<Rightarrow> ('e, 'a) app \<Rightarrow> ('e, 'a) promise \<times> ('e, 'a) app) \<Rightarrow> ('e, 'a) app
     \<Rightarrow> ('e, 'a) QueryObserverResult \<times> ('e, 'a) app" where
  "useQuery queryKey queryFn w =
     (case queryCache w queryKey of
        None \<Rightarrow>
          (let (p, w') = queryFn () w
           in (QueryLoading, w'\<lparr>queryCache := (queryCache w')(queryKey \<mapsto> Fetching p)\<rparr>))
      | Some q \<Rightarrow> (observe q, w))"

text \<open>
  Modelled from the spec: the settlement of the request in flight under a key, an event
  of the same library. A fulfilled promise leaves success with its payload, a rejected
  one failure with its reason; the library's own retry policy is left out, as the spec
  treats it as external.
\<close>

definition settle :: "string \<Rightarrow> ('e, 'a) app \<Rightarrow> ('e, 'a) app" where
  "settle queryKey w =
     (case queryCache w queryKey of
        Some (Fetching (Resolves a)) \<Rightarrow>
          w\<lparr>queryCache := (queryCache w)(queryKey \<mapsto> Fetched (QuerySuccess a))\<rparr>
      | Some (Fetching (Rejects e)) \<Rightarrow>
          w\<lparr>queryCache := (queryCache w)(queryKey \<mapsto> Fetched (QueryError e))\<rparr>
      | _ \<Rightarrow> w)"

text \<open>
  The hook itself. The query key is the template string \<open>resource/getOne/${resource}\<close>;
  the fetch function is the closure \<open>() => getOne(resource, id)\<close>.
\<close>

definition useOne ::
  "string \<Rightarrow> string \<Rightarrow> ('e, 'a) app \<Rightarrow> ('e, 'a) QueryObserverResult \<times> ('e, 'a) app" where
  "useOne resource id' w =
     (let g = getOne (DataContext w);
          queryResponse =
            useQuery (''resource/getOne/'' @ resource) (\<lambda>_. call_getOne g resource id') w
      in queryResponse)"

text \<open>
  Two concrete runs, for the examples below: an application that has fetched nothing
  yet, over a provider that resolves every (resource, id) with the payload
  \<open>resource#id\<close>, and over a provider that rejects every request.
\<close>

definition posts_app :: "(string, string) app" where
  "posts_app =
     \<lparr>DataContext = \<lparr>getOne = (\<lambda>resource id'. Resolves (resource @ ''#'' @ id'))\<rparr>,
      queryCache = Map.empty, getOne_calls = []\<rparr>"

definition failing_app :: "(string, string) app" where
  "failing_app =
     \<lparr>DataContext = \<lparr>getOne = (\<lambda>resource id'. Rejects ''404'')\<rparr>,
      queryCache = Map.empty, getOne_calls = []\<rparr>"


section \<open>The layout component \<open>Layout\<close>\<close>

text \<open>\<open>IAuthContext\<close>: the auth provider; \<open>logout\<close> takes a parameter object, here empty.\<close>

record ('e, 'v) IAuthContext =
  logout :: "unit \<Rightarrow> ('e, 'v) promise"

text \<open>\<open>IResourceContext\<close>: the resource registry, the names in configuration order.\<close>

record IResourceContext =
  resources :: "string list"

text \<open>
  The callback handed to \<open>.then\<close>. The layout registers one kind only,
  \<open>() => history.push(path)\<close>, kept as data so that it can wait in the state.
\<close>

datatype reaction = History_push string

text \<open>
  The state the layout runs in: its own \<open>collapsed\<close> flag, the router's history (the
  paths pushed, oldest first), the two ambient contexts, the console output, the number
  of calls made to the auth provider's \<open>logout\<close>, and the \<open>.then\<close> callbacks waiting
  for their promise to settle.
\<close>

record ('e, 'v) shell =
  collapsed :: bool
  history :: "string list"
  AuthContext :: "('e, 'v) IAuthContext"
  ResourceContext :: IResourceContext
  console :: "string list"
  logout_calls :: nat
  reactions :: "(('e, 'v) promise \<times> reaction) list"

definition console_log :: "string \<Rightarrow> ('e, 'v) shell \<Rightarrow> ('e, 'v) shell" where
  "console_log line w = w\<lparr>console := console w @ [line]\<rparr>"

definition history_push :: "string \<Rightarrow> ('e, 'v) shell \<Rightarrow> ('e, 'v) shell" where
  "history_push path w = w\<lparr>history := history w @ [path]\<rparr>"

definition call_logout :: "('e, 'v) shell \<Rightarrow> ('e, 'v) promise \<times> ('e, 'v) shell" where
  "call_logout w = (logout (AuthContext w) (), w\<lparr>logout_calls := Suc (logout_calls w)\<rparr>)"

text \<open>\<open>promise.then(callback)\<close>: the callback waits for the promise.\<close>

definition promise_then ::
  "('e, 'v) promise \<Rightarrow> reaction \<Rightarrow> ('e, 'v) shell \<Rightarrow> ('e, 'v) shell" where
  "promise_then p callback w = w\<lparr>reactions := reactions w @ [(p, callback)]\<rparr>"

definition run_reaction :: "reaction \<Rightarrow> ('e, 'v) shell \<Rightarrow> ('e, 'v) shell" where
  "run_reaction callback w = (case callback of History_push path \<Rightarrow> history_push path w)"

text \<open>
  The waiting promises settle: the callback of a fulfilled promise runs, the callback
  of a rejected one is dropped (\<open>.then\<close> was given no rejection handler).
\<close>

definition settle_reaction ::
  "('e, 'v) promise \<times> reaction \<Rightarrow> ('e, 'v) shell \<Rightarrow> ('e, 'v) shell" where
  "settle_reaction pc w =
     (case fst pc of Resolves v \<Rightarrow> run_reaction (snd pc) w | Rejects e \<Rightarrow> w)"

definition run_reactions :: "('e, 'v) shell \<Rightarrow> ('e, 'v) shell" where
  "run_reactions w = fold settle_reaction (reactions w) (w\<lparr>reactions := []\<rparr>)"

text \<open>The paths a waiting callback pushes once its promise has settled.\<close>

definition pushes :: "('e, 'v) promise \<times> reaction \<Rightarrow> string list" where
  "pushes pc =
     (case fst pc of
        Resolves v \<Rightarrow> (case snd pc of History_push path \<Rightarrow> [path])
      | Rejects e \<Rightarrow> [])"

text \<open>The click handler of the menu.\<close>

definition menuOnClick :: "string \<Rightarrow> ('e, 'v) shell \<Rightarrow> ('e, 'v) shell" where
  "menuOnClick key w =
     (let w1 = console_log (''clicked -> '' @ key) w
      in if key = ''logout''
         then (let (p, w2) = call_logout w1 in promise_then p (History_push ''/login'') w2)
         else w1)"

text \<open>The collapse handler of the sider, \<open>(collapsed) => setCollapsed(collapsed)\<close>.\<close>

definition onCollapse :: "bool \<Rightarrow> ('e, 'v) shell \<Rightarrow> ('e, 'v) shell" where
  "onCollapse c w = w\<lparr>collapsed := c\<rparr>"

text \<open>What the component renders: the sider with its menu, and the content area.\<close>

datatype icon = DashboardOutlined | LogoutOutlined | UnorderedListOutlined

datatype element = Link string string | Text string

record menu_item =
  item_key :: string
  item_icon :: icon
  item_children :: element

record 'c layout_view =
  sider_collapsed :: bool
  brand :: string
  defaultSelectedKeys :: "string list"
  menu :: "menu_item list"
  content :: 'c

text \<open>
  \<open>humanizeString\<close> is a function of a library outside the repository; it only makes
  the label of a resource entry and is taken as a parameter.
\<close>

definition Layout ::
  "(string \<Rightarrow> string) \<Rightarrow> 'c \<Rightarrow> ('e, 'v) shell \<Rightarrow> 'c layout_view" where
  "Layout humanizeString children w =
     \<lparr>sider_collapsed = collapsed w,
      brand = ''Brand Name'',
      defaultSelectedKeys = [''dashboard''],
      menu =
        [\<lparr>item_key = ''dashboard'', item_icon = DashboardOutlined,
          item_children = Link ''/'' ''Dashboard''\<rparr>] @
        map (\<lambda>item. \<lparr>item_key = ''resource-'' @ item, item_icon = UnorderedListOutlined,
                      item_children = Link (''/resources/'' @ item) (humanizeString item)\<rparr>)
            (resources (ResourceContext w)) @
        [\<lparr>item_key = ''logout'', item_icon = LogoutOutlined,
          item_children = Text ''Logout''\<rparr>],
      content = children\<rparr>"

text \<open>The link target of a menu entry, when it has one, and the entries that lead to a path.\<close>

definition link_target :: "menu_item \<Rightarrow> string option" where
  "link_target m = (case item_children m of Link to label \<Rightarrow> Some to | Text t \<Rightarrow> None)"

definition entries_to :: "string \<Rightarrow> menu_item list \<Rightarrow> menu_item list" where
  "entries_to path ms = filter (\<lambda>m. link_target m = Some path) ms"

text \<open>
  A click on a menu item. The \<open>Link\<close> of react-router (a library outside the
  repository) navigates on a click by pushing its target on the history it shares with
  \<open>useHistory\<close>; plain text does nothing. The click then reaches the menu, whose
  \<open>onClick\<close> is called with the item's key.
\<close>

definition click_element :: "element \<Rightarrow> ('e, 'v) shell \<Rightarrow> ('e, 'v) shell" where
  "click_element el w = (case el of Link to label \<Rightarrow> history_push to w | Text t \<Rightarrow> w)"

definition click_item :: "menu_item \<Rightarrow> ('e, 'v) shell \<Rightarrow> ('e, 'v) shell" where
  "click_item m w = menuOnClick (item_key m) (click_element (item_children m) w)"

text \<open>A signed-in shell over the registry \<open>posts, categories\<close>, for the examples below.\<close>

definition admin_shell :: "(string, unit) shell" where
  "admin_shell =
     \<lparr>collapsed = False, history = [''/''],
      AuthContext = \<lparr>logout = (\<lambda>_. Resolves ())\<rparr>,
      ResourceContext = \<lparr>resources = [''posts'', ''categories'']\<rparr>,
      console = [], logout_calls = 0, reactions = []\<rparr>"

text \<open>The menu entry the layout renders for the resource \<open>posts\<close>, with the name as label.\<close>

definition posts_item :: menu_item where
  "posts_item =
     \<lparr>item_key = ''resource-posts'', item_icon = UnorderedListOutlined,
      item_children = Link ''/resources/posts'' ''posts''\<rparr>"

section \<open>The unsaved-changes prompt (router provider guide, Next.js \<open>Prompt\<close>)\<close>

text \<open>
  The browser and router state the prompt works on: what the user will answer to a
  \<open>window.confirm\<close> dialog with a given message, the dialogs shown so far, the events
  emitted on \<open>router.events\<close>, the application's warn-when flag, and the current path.
\<close>

record browser =
  confirm_answer :: "string \<Rightarrow> bool"
  confirm_shown :: "string list"
  events_emitted :: "string list"
  warnWhen :: bool
  asPath :: string

text \<open>\<open>PromptProps\<close>; the callback \<open>setWarnWhen\<close> is optional.\<close>

record PromptProps =
  message :: string
  when' :: bool
  setWarnWhen :: "(bool \<Rightarrow> browser \<Rightarrow> browser) option"

datatype completion = Returns | Throws string

definition window_confirm :: "string \<Rightarrow> browser \<Rightarrow> bool \<times> browser" where
  "window_confirm msg w = (confirm_answer w msg, w\<lparr>confirm_shown := confirm_shown w @ [msg]\<rparr>)"

definition router_events_emit :: "string \<Rightarrow> browser \<Rightarrow> browser" where
  "router_events_emit event w = w\<lparr>events_emitted := events_emitted w @ [event]\<rparr>"

text \<open>The handler the component registers for the router's \<open>routeChangeStart\<close> event.\<close>

definition routeChangeStart :: "PromptProps \<Rightarrow> browser \<Rightarrow> completion \<times> browser" where
  "routeChangeStart props w =
     (if when' props then
        (let (allowTransition, w1) = window_confirm (message props) w
         in if allowTransition then
              (Returns, (case setWarnWhen props of None \<Rightarrow> w1 | Some f \<Rightarrow> f False w1))
            else
              (Throws ''Abort route change due to unsaved changes prompt. Ignore this error.'',
               router_events_emit ''routeChangeError'' w1))
      else (Returns, w))"

text \<open>
  A route change of the Next.js router (a library outside the repository) with the
  prompt mounted: the router emits \<open>routeChangeStart\<close>, which runs the handler, and
  moves to the new path unless the handler throws; the exception, which the handler's
  own message calls the abort of the route change, leaves the path as it is.
\<close>

definition route_change :: "PromptProps \<Rightarrow> string \<Rightarrow> browser \<Rightarrow> completion \<times> browser" where
  "route_change props url w =
     (case routeChangeStart props w of
        (Returns, w1) \<Rightarrow> (Returns, w1\<lparr>asPath := url\<rparr>)
      | (Throws x, w1) \<Rightarrow> (Throws x, w1))"

text \<open>
  An edit page with unsaved changes, whose user will decline every confirmation, and
  the prompt mounted on it, for the examples below.
\<close>

definition edit_page :: browser where
  "edit_page =
     \<lparr>confirm_answer = (\<lambda>msg. False), confirm_shown = [], events_emitted = [],
      warnWhen = True, asPath = ''/posts/edit/1''\<rparr>"

definition unsaved_prompt :: PromptProps where
  "unsaved_prompt =
     \<lparr>message = ''Are you sure you want to leave? You have unsaved changes.'',
      when' = True,
      setWarnWhen = Some (\<lambda>b w. w\<lparr>warnWhen := b\<rparr>)\<rparr>"

section \<open>Properties of \<open>useOne\<close>\<close>

lemma useOne_miss:
  "k = ''resource/getOne/'' @ r \<Longrightarrow> queryCache w k = None \<Longrightarrow>
   useOne r i w =
     (QueryLoading,
      w\<lparr>getOne_calls := getOne_calls w @ [(r, i)],
        queryCache := (queryCache w)(k \<mapsto> Fetching (getOne (DataContext w) r i))\<rparr>)"
  by (simp add: useOne_def useQuery_def call_getOne_def)

lemma useOne_hit:
  "k = ''resource/getOne/'' @ r \<Longrightarrow> queryCache w k = Some q \<Longrightarrow>
   useOne r i w = (observe q, w)"
  by (simp add: useOne_def useQuery_def)

lemma useOne_cache:
  assumes k: "k = ''resource/getOne/'' @ r"
  shows "queryCache (snd (useOne r i w)) =
     (queryCache w)(k \<mapsto>
        (case queryCache w k of
           None \<Rightarrow> Fetching (getOne (DataContext w) r i) | Some q \<Rightarrow> q))"
  by (cases "queryCache w k") (auto simp: useOne_miss [OF k] useOne_hit [OF k])

lemma settle_fetching:
  "queryCache w k = Some (Fetching p) \<Longrightarrow>
   settle k w = w\<lparr>queryCache := (queryCache w)(k \<mapsto>
      Fetched (case p of Resolves a \<Rightarrow> QuerySuccess a | Rejects e \<Rightarrow> QueryError e))\<rparr>"
  by (cases p) (simp_all add: settle_def)

lemma settle_fetched:
  "queryCache w k = Some (Fetched x) \<Longrightarrow> settle k w = w"
  by (simp add: settle_def)

text \<open>
  Claim C8. For every resource and every two ids, \<open>useOne\<close> works under the same query
  key, the string \<open>resource/getOne/<resource>\<close>: whichever id is passed, the one cache
  entry the call touches is the entry under that key, and the rest of the cache is
  left as it was. The id never reaches the key, so a call for a second id made after
  a call for a first id observes the entry the first call left (the request for the
  first id when the key was free) and changes nothing: no entry, no provider call.
\<close>

theorem useOne_key_ignores_id:
  fixes w :: "('e, 'a) app"
  shows
  "queryCache (snd (useOne r id1 w)) =
     (queryCache w)(''resource/getOne/'' @ r \<mapsto>
        (case queryCache w (''resource/getOne/'' @ r) of
           None \<Rightarrow> Fetching (getOne (DataContext w) r id1) | Some q \<Rightarrow> q)) \<and>
   queryCache (snd (useOne r id2 w)) =
     (queryCache w)(''resource/getOne/'' @ r \<mapsto>
        (case queryCache w (''resource/getOne/'' @ r) of
           None \<Rightarrow> Fetching (getOne (DataContext w) r id2) | Some q \<Rightarrow> q)) \<and>
   useOne r id2 (snd (useOne r id1 w)) =
     (observe (case queryCache w (''resource/getOne/'' @ r) of
                 None \<Rightarrow> Fetching (getOne (DataContext w) r id1) | Some q \<Rightarrow> q),
      snd (useOne r id1 w))"
proof -
  define k where k: "k = ''resource/getOne/'' @ r"
  define e where "e = (case queryCache w k of
              None \<Rightarrow> Fetching (getOne (DataContext w) r id1) | Some q \<Rightarrow> q)"
  have 1: "queryCache (snd (useOne r id1 w)) = (queryCache w)(k \<mapsto> e)"
    unfolding e_def by (rule useOne_cache [OF k])
  have 2: "queryCache (snd (useOne r id2 w)) =
     (queryCache w)(k \<mapsto> (case queryCache w k of
           None \<Rightarrow> Fetching (getOne (DataContext w) r id2) | Some q \<Rightarrow> q))"
    by (rule useOne_cache [OF k])
  have "queryCache (snd (useOne r id1 w)) k = Some e"
    by (simp add: 1)
  then have 3: "useOne r id2 (snd (useOne r id1 w)) = (observe e, snd (useOne r id1 w))"
    by (rule useOne_hit [OF k])
  from 1 2 3 show ?thesis
    unfolding e_def k by blast
qed

text \<open>
  Claim C3. Two invocations of \<open>useOne\<close> with the same resource and id, one right after
  the other: both work under the one key \<open>resource/getOne/<resource>\<close>, both report the
  state of the same cache entry, the second changes nothing, and together they make at
  most one call to the provider (exactly one when the key had no entry, none otherwise).
\<close>

theorem useOne_same_key_one_fetch:
  fixes w :: "('e, 'a) app"
  shows
  "(case useOne r i w of (res1, w1) \<Rightarrow>
     case useOne r i w1 of (res2, w2) \<Rightarrow>
       w2 = w1 \<and>
       (\<exists>q. queryCache w1 (''resource/getOne/'' @ r) = Some q \<and>
            res1 = observe q \<and> res2 = observe q) \<and>
       getOne_calls w2 =
         getOne_calls w @
           (if queryCache w (''resource/getOne/'' @ r) = None then [(r, i)] else []) \<and>
       length (getOne_calls w2) \<le> Suc (length (getOne_calls w)))"
proof -
  define k where k: "k = ''resource/getOne/'' @ r"
  have "(case useOne r i w of (res1, w1) \<Rightarrow>
     case useOne r i w1 of (res2, w2) \<Rightarrow>
       w2 = w1 \<and>
       (\<exists>q. queryCache w1 k = Some q \<and> res1 = observe q \<and> res2 = observe q) \<and>
       getOne_calls w2 =
         getOne_calls w @ (if queryCache w k = None then [(r, i)] else []) \<and>
       length (getOne_calls w2) \<le> Suc (length (getOne_calls w)))"
  proof (cases "queryCache w k")
    case None
    define w1 where "w1 = w\<lparr>getOne_calls := getOne_calls w @ [(r, i)],
        queryCache := (queryCache w)(k \<mapsto> Fetching (getOne (DataContext w) r i))\<rparr>"
    have 1: "useOne r i w = (QueryLoading, w1)"
      unfolding w1_def using k None by (rule useOne_miss)
    have 2: "queryCache w1 k = Some (Fetching (getOne (DataContext w) r i))"
      by (simp add: w1_def)
    then have 3: "useOne r i w1 = (observe (Fetching (getOne (DataContext w) r i)), w1)"
      by (rule useOne_hit [OF k])
    have 4: "getOne_calls w1 = getOne_calls w @ [(r, i)]"
      by (simp add: w1_def)
    show ?thesis
      using None by (simp add: 1 2 3 4 observe_def)
  next
    case (Some q)
    then have "useOne r i w = (observe q, w)"
      by (rule useOne_hit [OF k])
    then show ?thesis
      using Some by simp
  qed
  then show ?thesis
    unfolding k .
qed

text \<open>
  Claim C9. Whenever the fetch function of \<open>useOne\<close> runs (the key has no entry), the
  provider's \<open>getOne\<close> is called once, with the resource and the id the hook received,
  in that order; the promise it returns is the request kept in flight under the key;
  and once that request settles the hook reports the provider's outcome as it is: the
  payload on success, the reason on failure.
\<close>

theorem useOne_fetch_forwards_arguments:
  fixes w :: "('e, 'a) app"
  assumes "queryCache w (''resource/getOne/'' @ r) = None"
  shows
  "(case useOne r i w of (res1, w1) \<Rightarrow>
      getOne_calls w1 = getOne_calls w @ [(r, i)] \<and>
      DataContext w1 = DataContext w \<and>
      queryCache w1 (''resource/getOne/'' @ r) = Some (Fetching (getOne (DataContext w) r i)) \<and>
      fst (useOne r i (settle (''resource/getOne/'' @ r) w1)) =
        (case getOne (DataContext w) r i of
           Resolves a \<Rightarrow> QuerySuccess a | Rejects e \<Rightarrow> QueryError e))"
proof -
  define k where k: "k = ''resource/getOne/'' @ r"
  define p where "p = getOne (DataContext w) r i"
  define w1 where "w1 = w\<lparr>getOne_calls := getOne_calls w @ [(r, i)],
        queryCache := (queryCache w)(k \<mapsto> Fetching p)\<rparr>"
  define x where "x = (case p of Resolves a \<Rightarrow> QuerySuccess a | Rejects e \<Rightarrow> QueryError e)"
  have miss: "queryCache w k = None"
    using assms by (simp add: k)
  have 1: "useOne r i w = (QueryLoading, w1)"
    unfolding w1_def p_def using k miss by (rule useOne_miss)
  have 2: "queryCache w1 k = Some (Fetching p)"
    by (simp add: w1_def)
  have 3: "settle k w1 = w1\<lparr>queryCache := (queryCache w1)(k \<mapsto> Fetched x)\<rparr>"
    unfolding x_def using 2 by (rule settle_fetching)
  have "queryCache (settle k w1) k = Some (Fetched x)"
    by (simp add: 3)
  then have "useOne r i (settle k w1) = (observe (Fetched x), settle k w1)"
    by (rule useOne_hit [OF k])
  then have 4: "fst (useOne r i (settle k w1)) = x"
    by (simp add: observe_def)
  have 5: "getOne_calls w1 = getOne_calls w @ [(r, i)]" "DataContext w1 = DataContext w"
    by (simp_all add: w1_def)
  have "(case useOne r i w of (res1, w1) \<Rightarrow>
      getOne_calls w1 = getOne_calls w @ [(r, i)] \<and>
      DataContext w1 = DataContext w \<and>
      queryCache w1 k = Some (Fetching p) \<and>
      fst (useOne r i (settle k w1)) = x)"
    by (simp only: 1 2 4 5 prod.case simp_thms)
  then show ?thesis
    unfolding k p_def x_def .
qed

theorem useOne_fetch_forwards_arguments_witness:
  "queryCache posts_app (''resource/getOne/'' @ ''posts'') = None \<and>
   (case useOne ''posts'' ''1'' posts_app of (res1, w1) \<Rightarrow>
      getOne_calls w1 = [(''posts'', ''1'')] \<and>
      queryCache w1 ''resource/getOne/posts'' = Some (Fetching (Resolves ''posts#1'')) \<and>
      fst (useOne ''posts'' ''1'' (settle ''resource/getOne/posts'' w1)) =
        QuerySuccess ''posts#1'')"
proof -
  have h: "queryCache posts_app (''resource/getOne/'' @ ''posts'') = None"
    by (simp add: posts_app_def)
  show ?thesis
    using h useOne_fetch_forwards_arguments [OF h, of "''1''"]
    by (simp add: posts_app_def split: prod.splits)
qed

text \<open>
  A fetch that runs and is rejected. When the key has no entry and the provider's
  \<open>getOne\<close> rejects with a reason, the hook reports pending until the request settles
  and failure with that very reason from then on: the settled state is left alone by
  every later render and settlement, and the provider was called once only (the hook
  retries nothing).
\<close>

lemma useOne_rejected_fetch_fails:
  fixes w :: "('e, 'a) app"
  assumes "queryCache w (''resource/getOne/'' @ r) = None"
    and "getOne (DataContext w) r i = Rejects e"
  shows
  "(case useOne r i w of (res1, w1) \<Rightarrow>
      res1 = QueryLoading \<and>
      getOne_calls w1 = getOne_calls w @ [(r, i)] \<and>
      (case useOne r i (settle (''resource/getOne/'' @ r) w1) of (res2, w2) \<Rightarrow>
         res2 = QueryError e \<and>
         getOne_calls w2 = getOne_calls w @ [(r, i)] \<and>
         settle (''resource/getOne/'' @ r) w2 = w2 \<and>
         (\<forall>n. useOne r i (((\<lambda>v. settle (''resource/getOne/'' @ r) (snd (useOne r i v))) ^^ n) w2)
                = (QueryError e, w2))))"
proof -
  define k where k: "k = ''resource/getOne/'' @ r"
  define w1 where "w1 = w\<lparr>getOne_calls := getOne_calls w @ [(r, i)],
        queryCache := (queryCache w)(k \<mapsto> Fetching (getOne (DataContext w) r i))\<rparr>"
  define w2 where "w2 = w1\<lparr>queryCache := (queryCache w1)(k \<mapsto> Fetched (QueryError e))\<rparr>"
  have miss: "queryCache w k = None"
    using assms(1) by (simp add: k)
  have 1: "useOne r i w = (QueryLoading, w1)"
    unfolding w1_def using k miss by (rule useOne_miss)
  have "queryCache w1 k = Some (Fetching (Rejects e))"
    by (simp add: w1_def assms(2))
  then have 2: "settle k w1 = w2"
    unfolding w2_def by (simp add: settle_fetching)
  have c: "queryCache w2 k = Some (Fetched (QueryError e))"
    by (simp add: w2_def)
  have 3: "useOne r i w2 = (QueryError e, w2)"
    using useOne_hit [OF k c] by (simp add: observe_def)
  have 4: "settle k w2 = w2"
    using c by (rule settle_fetched)
  have 5: "getOne_calls w1 = getOne_calls w @ [(r, i)]" "getOne_calls w2 = getOne_calls w @ [(r, i)]"
    by (simp_all add: w1_def w2_def)
  have 6: "((\<lambda>v. settle k (snd (useOne r i v))) ^^ n) w2 = w2" for n
    by (induction n) (simp_all add: 3 4)
  have "(case useOne r i w of (res1, w1) \<Rightarrow>
      res1 = QueryLoading \<and>
      getOne_calls w1 = getOne_calls w @ [(r, i)] \<and>
      (case useOne r i (settle k w1) of (res2, w2) \<Rightarrow>
         res2 = QueryError e \<and>
         getOne_calls w2 = getOne_calls w @ [(r, i)] \<and>
         settle k w2 = w2 \<and>
         (\<forall>n. useOne r i (((\<lambda>v. settle k (snd (useOne r i v))) ^^ n) w2)
                = (QueryError e, w2))))"
    by (simp only: 1 2 3 4 5 6 prod.case simp_thms)
  then show ?thesis
    unfolding k .
qed

lemma useOne_rejected_fetch_fails_example:
  "queryCache failing_app (''resource/getOne/'' @ ''posts'') = None \<and>
   getOne (DataContext failing_app) ''posts'' ''1'' = Rejects ''404'' \<and>
   (case useOne ''posts'' ''1'' failing_app of (res1, w1) \<Rightarrow>
      res1 = QueryLoading \<and>
      (case useOne ''posts'' ''1'' (settle ''resource/getOne/posts'' w1) of (res2, w2) \<Rightarrow>
         res2 = QueryError ''404'' \<and> getOne_calls w2 = [(''posts'', ''1'')]))"
proof -
  have h1: "queryCache failing_app (''resource/getOne/'' @ ''posts'') = None"
    by (simp add: failing_app_def)
  have h2: "getOne (DataContext failing_app) ''posts'' ''1'' = Rejects ''404''"
    by (simp add: failing_app_def)
  show ?thesis
    using h1 h2 useOne_rejected_fetch_fails [OF h1 h2]
    by (simp add: failing_app_def split: prod.splits)
qed

text \<open>
  Claim C1, on the code. The claim wants a new key and a new fetch for a new id. On the
  application that has fetched nothing, \<open>useOne("posts", "1")\<close> followed by
  \<open>useOne("posts", "2")\<close> leaves one cache key, \<open>resource/getOne/posts\<close>, and one call
  to the provider, the one for id 1: the call for id 2 triggers no fetch and, once the
  request has settled, is served the record of id 1.
\<close>

theorem useOne_second_id_shares_key:
  "(case useOne ''posts'' ''1'' posts_app of (res1, w1) \<Rightarrow>
      case useOne ''posts'' ''2'' w1 of (res2, w2) \<Rightarrow>
        dom (queryCache w1) = {''resource/getOne/posts''} \<and>
        dom (queryCache w2) = {''resource/getOne/posts''} \<and>
        getOne_calls w2 = [(''posts'', ''1'')] \<and>
        useOne ''posts'' ''2'' (settle ''resource/getOne/posts'' w2) =
          (QuerySuccess ''posts#1'', settle ''resource/getOne/posts'' w2))"
  by (simp add: useOne_def useQuery_def call_getOne_def settle_def observe_def posts_app_def)

text \<open>
  Claim C2, on the code. The provider resolves (posts, 1) with \<open>posts#1\<close>. When the
  hook for (posts, 1) is rendered while the request of the hook for (posts, 2) is in
  flight, it joins that request, and after the settlement it reports success with
  \<open>posts#2\<close>, the payload of the other id, on every later render; the provider is never
  asked for (posts, 1).
\<close>

theorem useOne_reports_other_ids_payload:
  "getOne (DataContext posts_app) ''posts'' ''1'' = Resolves ''posts#1'' \<and>
   (case useOne ''posts'' ''2'' posts_app of (res1, w1) \<Rightarrow>
      case useOne ''posts'' ''1'' w1 of (res2, w2) \<Rightarrow>
        case useOne ''posts'' ''1'' (settle ''resource/getOne/posts'' w2) of (res3, w3) \<Rightarrow>
          res2 = QueryLoading \<and>
          res3 = QuerySuccess ''posts#2'' \<and>
          getOne_calls w3 = [(''posts'', ''2'')] \<and>
          useOne ''posts'' ''1'' w3 = (QuerySuccess ''posts#2'', w3))"
  by (simp add: useOne_def useQuery_def call_getOne_def settle_def observe_def posts_app_def)


section \<open>Properties of \<open>Layout\<close>\<close>

lemma settle_reaction_history:
  "history (settle_reaction pc v) = history v @ pushes pc"
  by (simp add: settle_reaction_def run_reaction_def history_push_def pushes_def
        split: promise.splits reaction.splits)

lemma fold_settle_history:
  "history (fold settle_reaction rs v) = history v @ concat (map pushes rs)"
  by (induction rs arbitrary: v) (simp_all add: settle_reaction_history)

lemma run_reactions_history:
  "history (run_reactions w) = history w @ concat (map pushes (reactions w))"
  by (simp add: run_reactions_def fold_settle_history)

lemma settle_reaction_frame:
  "ResourceContext (settle_reaction pc v) = ResourceContext v \<and>
   AuthContext (settle_reaction pc v) = AuthContext v \<and>
   logout_calls (settle_reaction pc v) = logout_calls v"
  by (simp add: settle_reaction_def run_reaction_def history_push_def
        split: promise.splits reaction.splits)

lemma fold_settle_frame:
  "ResourceContext (fold settle_reaction rs v) = ResourceContext v \<and>
   AuthContext (fold settle_reaction rs v) = AuthContext v \<and>
   logout_calls (fold settle_reaction rs v) = logout_calls v"
  by (induction rs arbitrary: v) (simp_all add: settle_reaction_frame)

lemma menuOnClick_logout:
  "menuOnClick ''logout'' w =
     w\<lparr>console := console w @ [''clicked -> logout''],
       logout_calls := Suc (logout_calls w),
       reactions := reactions w @ [(logout (AuthContext w) (), History_push ''/login'')]\<rparr>"
  by (simp add: menuOnClick_def console_log_def call_logout_def promise_then_def)

lemma menuOnClick_other:
  "key \<noteq> ''logout'' \<Longrightarrow>
   menuOnClick key w = w\<lparr>console := console w @ [''clicked -> '' @ key]\<rparr>"
  by (simp add: menuOnClick_def console_log_def)

lemma menuOnClick_registry:
  "ResourceContext (menuOnClick key w) = ResourceContext w"
  by (cases "key = ''logout''") (simp_all add: menuOnClick_logout menuOnClick_other)

lemma entries_to_resource:
  "entries_to (p @ n) (map (\<lambda>item. \<lparr>item_key = a @ item, item_icon = i,
                      item_children = Link (p @ item) (h item)\<rparr>) rs)
   = map (\<lambda>item. \<lparr>item_key = a @ item, item_icon = i,
                      item_children = Link (p @ item) (h item)\<rparr>) (filter (\<lambda>item. item = n) rs)"
  by (induction rs) (simp_all add: entries_to_def link_target_def)

lemma distinct_once:
  "distinct rs \<Longrightarrow> n \<in> set rs \<Longrightarrow> length (filter (\<lambda>item. item = n) rs) = 1"
  by (induction rs) (auto simp: filter_empty_conv)

lemma map_filter_app:
  "List.map_filter f (xs @ ys) = List.map_filter f xs @ List.map_filter f ys"
  by (simp add: List.map_filter_def)

text \<open>
  Claim C5. The link targets of the sidebar's menu, read top to bottom, are the
  dashboard's \<open>/\<close> followed by \<open>/resources/<name>\<close> for each name of the registry, in
  registry order; with the registry's names unique (a resource is identified by its
  name), exactly one menu entry leads to \<open>/resources/<name>\<close> for every registered
  name. Rendering is a function of the state that returns the view only, and none of
  the layout's handlers or callbacks changes the registry.
\<close>

theorem Layout_sidebar_lists_registry:
  fixes w :: "('e, 'v) shell"
  assumes "distinct (resources (ResourceContext w))"
  shows
  "List.map_filter link_target (menu (Layout h c w)) =
     ''/'' # map (\<lambda>name. ''/resources/'' @ name) (resources (ResourceContext w)) \<and>
   (\<forall>name \<in> set (resources (ResourceContext w)).
      length (entries_to (''/resources/'' @ name) (menu (Layout h c w))) = 1) \<and>
   ResourceContext (menuOnClick key w) = ResourceContext w \<and>
   ResourceContext (onCollapse b w) = ResourceContext w \<and>
   ResourceContext (run_reactions w) = ResourceContext w"
proof -
  define rs where "rs = resources (ResourceContext w)"
  define item_of where "item_of = (\<lambda>item. \<lparr>item_key = ''resource-'' @ item,
      item_icon = UnorderedListOutlined,
      item_children = Link (''/resources/'' @ item) (h item)\<rparr>)"
  define first where "first = \<lparr>item_key = ''dashboard'', item_icon = DashboardOutlined,
          item_children = Link ''/'' ''Dashboard''\<rparr>"
  define lastm where "lastm = \<lparr>item_key = ''logout'', item_icon = LogoutOutlined,
          item_children = Text ''Logout''\<rparr>"
  have m: "menu (Layout h c w) = [first] @ map item_of rs @ [lastm]"
    by (simp add: Layout_def rs_def item_of_def first_def lastm_def)
  have links: "List.map_filter link_target (map item_of xs) =
      map (\<lambda>name. ''/resources/'' @ name) xs" for xs
    by (induction xs) (simp_all add: link_target_def item_of_def)
  have 1: "List.map_filter link_target (menu (Layout h c w)) =
     ''/'' # map (\<lambda>name. ''/resources/'' @ name) rs"
    unfolding m
    by (simp only: map_filter_app links) (simp add: link_target_def first_def lastm_def)
  have 2: "length (entries_to (''/resources/'' @ name) (menu (Layout h c w))) = 1"
    if "name \<in> set rs" for name
  proof -
    have a: "entries_to (''/resources/'' @ name) [first] = []"
      by (simp add: entries_to_def link_target_def first_def)
    have b: "entries_to (''/resources/'' @ name) [lastm] = []"
      by (simp add: entries_to_def link_target_def lastm_def)
    have c: "entries_to (''/resources/'' @ name) (map item_of rs) =
        map item_of (filter (\<lambda>item. item = name) rs)"
      unfolding item_of_def by (rule entries_to_resource)
    have d: "entries_to p (xs @ ys) = entries_to p xs @ entries_to p ys" for p xs ys
      by (simp add: entries_to_def)
    have "length (filter (\<lambda>item. item = name) rs) = 1"
      using assms that unfolding rs_def by (rule distinct_once)
    then show ?thesis
      unfolding m d a b c by simp
  qed
  have 3: "ResourceContext (run_reactions w) = ResourceContext w"
    by (simp add: run_reactions_def fold_settle_frame)
  have 4: "ResourceContext (onCollapse b w) = ResourceContext w"
    by (simp add: onCollapse_def)
  show ?thesis
    using 1 2 3 4 menuOnClick_registry [of key w] unfolding rs_def by blast
qed

theorem Layout_sidebar_lists_registry_witness:
  "distinct (resources (ResourceContext admin_shell)) \<and>
   List.map_filter link_target (menu (Layout (\<lambda>name. name) () admin_shell)) =
     [''/'', ''/resources/posts'', ''/resources/categories''] \<and>
   length (entries_to ''/resources/posts'' (menu (Layout (\<lambda>name. name) () admin_shell))) = 1 \<and>
   length (entries_to ''/resources/categories''
             (menu (Layout (\<lambda>name. name) () admin_shell))) = 1 \<and>
   resources (ResourceContext (menuOnClick ''logout'' admin_shell)) = [''posts'', ''categories'']"
proof -
  have h: "distinct (resources (ResourceContext admin_shell))"
    by (simp add: admin_shell_def)
  show ?thesis
    using h Layout_sidebar_lists_registry [OF h, of "\<lambda>name. name" "()" "''logout''" True]
    by (simp add: admin_shell_def)
qed


lemma Layout_menu_items:
  "m \<in> set (menu (Layout h c w)) \<Longrightarrow>
   m = \<lparr>item_key = ''dashboard'', item_icon = DashboardOutlined,
         item_children = Link ''/'' ''Dashboard''\<rparr> \<or>
   (\<exists>name \<in> set (resources (ResourceContext w)).
      m = \<lparr>item_key = ''resource-'' @ name, item_icon = UnorderedListOutlined,
            item_children = Link (''/resources/'' @ name) (h name)\<rparr>) \<or>
   m = \<lparr>item_key = ''logout'', item_icon = LogoutOutlined, item_children = Text ''Logout''\<rparr>"
  by (auto simp: Layout_def)

lemma click_item_Link:
  "item_key m \<noteq> ''logout'' \<Longrightarrow> item_children m = Link to label \<Longrightarrow>
   click_item m w =
     w\<lparr>history := history w @ [to],
       console := console w @ [''clicked -> '' @ item_key m]\<rparr>"
  by (simp add: click_item_def click_element_def history_push_def menuOnClick_other)

lemma click_item_logout:
  "item_key m = ''logout'' \<Longrightarrow> item_children m = Text t \<Longrightarrow>
   click_item m w = menuOnClick ''logout'' w"
  by (simp add: click_item_def click_element_def)

text \<open>
  Claim C10, as stated. A click on the item the layout renders for the resource
  \<open>posts\<close>, whose key is not \<open>logout\<close>, pushes \<open>/resources/posts\<close> on the history: the
  item's \<open>Link\<close> navigates, so the click does trigger a \<open>history.push\<close>.
\<close>

theorem resource_item_click_pushes_history:
  "posts_item \<in> set (menu (Layout (\<lambda>name. name) () admin_shell)) \<and>
   item_key posts_item \<noteq> ''logout'' \<and>
   history admin_shell = [''/''] \<and>
   history (click_item posts_item admin_shell) = [''/'', ''/resources/posts''] \<and>
   history (click_item posts_item admin_shell) \<noteq> history admin_shell"
  by (simp add: posts_item_def admin_shell_def Layout_def click_item_def click_element_def
        history_push_def menuOnClick_def console_log_def)

text \<open>
  Claim C10, amended. For a key other than \<open>logout\<close> the layout's click handler writes
  the console line and nothing else: the auth provider's \<open>logout\<close> is not called, the
  handler pushes nothing on the history, no callback is left waiting, and nothing is
  pushed later on its account; the logout key is the only key for which the handler
  calls \<open>logout\<close>. Every item the layout renders under such a key (the dashboard item
  and the resource items) holds a \<open>Link\<close>, and a click on the item changes the state by
  that \<open>Link\<close>'s one push of its own target and the handler's console line, nothing
  more; among the rendered items, the click calls \<open>logout\<close> for the logout item only.
\<close>

theorem non_logout_click_handler_only_logs:
  fixes w :: "('e, 'v) shell"
  assumes "key \<noteq> ''logout''"
  shows
  "menuOnClick key w = w\<lparr>console := console w @ [''clicked -> '' @ key]\<rparr> \<and>
   logout_calls (menuOnClick key w) = logout_calls w \<and>
   history (menuOnClick key w) = history w \<and>
   reactions (menuOnClick key w) = reactions w \<and>
   history (run_reactions (menuOnClick key w)) = history (run_reactions w) \<and>
   (logout_calls (menuOnClick key' w) \<noteq> logout_calls w \<longleftrightarrow> key' = ''logout'') \<and>
   (\<forall>m \<in> set (menu (Layout h c w)). item_key m = key \<longrightarrow>
      (\<exists>to label. item_children m = Link to label \<and>
         click_item m w =
           w\<lparr>history := history w @ [to],
             console := console w @ [''clicked -> '' @ key]\<rparr>)) \<and>
   (\<forall>m \<in> set (menu (Layout h c w)).
      (logout_calls (click_item m w) \<noteq> logout_calls w \<longleftrightarrow> item_key m = ''logout''))"
proof -
  have 1: "menuOnClick key w = w\<lparr>console := console w @ [''clicked -> '' @ key]\<rparr>"
    using assms by (rule menuOnClick_other)
  have 2: "logout_calls (menuOnClick key' w) \<noteq> logout_calls w \<longleftrightarrow> key' = ''logout''"
    by (cases "key' = ''logout''") (simp_all add: menuOnClick_logout menuOnClick_other)
  have 3: "\<exists>to label. item_children m = Link to label \<and>
         click_item m w =
           w\<lparr>history := history w @ [to],
             console := console w @ [''clicked -> '' @ key]\<rparr>"
    if m: "m \<in> set (menu (Layout h c w))" and k: "item_key m = key" for m
  proof -
    have nl: "item_key m \<noteq> ''logout''"
      using assms k by simp
    from Layout_menu_items [OF m] nl
    obtain to label where l: "item_children m = Link to label"
      by auto
    from click_item_Link [OF nl l, of w] l k show ?thesis
      by auto
  qed
  have 4: "logout_calls (click_item m w) \<noteq> logout_calls w \<longleftrightarrow> item_key m = ''logout''"
    if m: "m \<in> set (menu (Layout h c w))" for m
  proof (cases "item_key m = ''logout''")
    case True
    with Layout_menu_items [OF m] have "item_children m = Text ''Logout''"
      by auto
    with True have "click_item m w = menuOnClick ''logout'' w"
      by (rule click_item_logout)
    with True show ?thesis
      by (simp add: menuOnClick_logout)
  next
    case False
    with Layout_menu_items [OF m]
    obtain to label where l: "item_children m = Link to label"
      by auto
    from click_item_Link [OF False l, of w] False show ?thesis
      by simp
  qed
  show ?thesis
    using 2 3 4 by (simp add: 1 run_reactions_history)
qed

theorem non_logout_click_handler_only_logs_witness:
  "''dashboard'' \<noteq> ''logout'' \<and> ''resource-posts'' \<noteq> ''logout'' \<and>
   menuOnClick ''dashboard'' admin_shell =
     admin_shell\<lparr>console := [''clicked -> dashboard'']\<rparr> \<and>
   menuOnClick ''resource-posts'' admin_shell =
     admin_shell\<lparr>console := [''clicked -> resource-posts'']\<rparr> \<and>
   history (run_reactions (menuOnClick ''resource-posts'' admin_shell)) = [''/''] \<and>
   posts_item \<in> set (menu (Layout (\<lambda>name. name) () admin_shell)) \<and>
   item_key posts_item = ''resource-posts'' \<and>
   click_item posts_item admin_shell =
     admin_shell\<lparr>history := [''/'', ''/resources/posts''],
       console := [''clicked -> resource-posts'']\<rparr> \<and>
   logout_calls (click_item posts_item admin_shell) = 0"
proof -
  have h1: "''dashboard'' \<noteq> ''logout''" and h2: "''resource-posts'' \<noteq> ''logout''"
    by simp_all
  have m: "posts_item \<in> set (menu (Layout (\<lambda>name. name) () admin_shell))"
    by (simp add: posts_item_def admin_shell_def Layout_def)
  have k: "item_key posts_item = ''resource-posts''"
    by (simp add: posts_item_def)
  note dashboard = non_logout_click_handler_only_logs [OF h1, of admin_shell]
  note posts =
    non_logout_click_handler_only_logs [OF h2, of admin_shell "''resource-posts''"
      "\<lambda>name. name" "()"]
  from posts m k obtain to label where
    l: "item_children posts_item = Link to label" and
    c: "click_item posts_item admin_shell =
          admin_shell\<lparr>history := history admin_shell @ [to],
            console := console admin_shell @ [''clicked -> '' @ ''resource-posts'']\<rparr>"
    by blast
  from l have "to = ''/resources/posts''"
    by (auto simp: posts_item_def)
  with c have click: "click_item posts_item admin_shell =
     admin_shell\<lparr>history := [''/'', ''/resources/posts''],
       console := [''clicked -> resource-posts'']\<rparr>"
    by (simp add: admin_shell_def)
  have calls: "logout_calls (click_item posts_item admin_shell) = 0"
    by (simp add: click) (simp add: admin_shell_def)
  from dashboard have d0: "menuOnClick ''dashboard'' admin_shell =
     admin_shell\<lparr>console := console admin_shell @ [''clicked -> '' @ ''dashboard'']\<rparr>"
    by (rule conjunct1)
  have d: "menuOnClick ''dashboard'' admin_shell =
     admin_shell\<lparr>console := [''clicked -> dashboard'']\<rparr>"
    by (simp only: d0) (simp add: admin_shell_def)
  from posts have p0: "menuOnClick ''resource-posts'' admin_shell =
     admin_shell\<lparr>console := console admin_shell @ [''clicked -> '' @ ''resource-posts'']\<rparr>"
    by (rule conjunct1)
  have p: "menuOnClick ''resource-posts'' admin_shell =
     admin_shell\<lparr>console := [''clicked -> resource-posts'']\<rparr>"
    by (simp only: p0) (simp add: admin_shell_def)
  have r: "history (run_reactions (menuOnClick ''resource-posts'' admin_shell)) = [''/'']"
    by (simp add: p) (simp add: admin_shell_def run_reactions_def)
  from h1 h2 d p r m k click calls show ?thesis
    by blast
qed

section \<open>Properties of the prompt\<close>

text \<open>
  Claim C7. The prompt is gated by its flag \<open>when\<close>. With the flag false the handler
  shows no confirmation and changes nothing, and the route change goes through. With
  the flag true the confirmation is shown with the prompt's message, the handler
  returns exactly when the user confirms, and the route change goes through exactly
  then; when the user declines, \<open>routeChangeError\<close> is emitted, the handler throws and
  the path stays as it was.
\<close>

theorem Prompt_gated_by_when:
  "(\<not> when' props \<longrightarrow>
      routeChangeStart props w = (Returns, w) \<and>
      route_change props url w = (Returns, w\<lparr>asPath := url\<rparr>)) \<and>
   (when' props \<longrightarrow>
      (fst (routeChangeStart props w) = Returns \<longleftrightarrow> confirm_answer w (message props)) \<and>
      (fst (route_change props url w) = Returns \<longleftrightarrow> confirm_answer w (message props)) \<and>
      asPath (snd (route_change props url w)) =
        (if confirm_answer w (message props) then url else asPath w)) \<and>
   (when' props \<and> \<not> confirm_answer w (message props) \<longrightarrow>
      snd (route_change props url w) =
        w\<lparr>confirm_shown := confirm_shown w @ [message props],
          events_emitted := events_emitted w @ [''routeChangeError'']\<rparr>)"
  by (simp add: route_change_def routeChangeStart_def window_confirm_def
        router_events_emit_def split: option.splits)

theorem Prompt_gated_by_when_witness:
  "when' unsaved_prompt \<and> \<not> confirm_answer edit_page (message unsaved_prompt) \<and>
   fst (route_change unsaved_prompt ''/posts'' edit_page) \<noteq> Returns \<and>
   asPath (snd (route_change unsaved_prompt ''/posts'' edit_page)) = ''/posts/edit/1'' \<and>
   \<not> when' (unsaved_prompt\<lparr>when' := False\<rparr>) \<and>
   route_change (unsaved_prompt\<lparr>when' := False\<rparr>) ''/posts'' edit_page =
     (Returns, edit_page\<lparr>asPath := ''/posts''\<rparr>) \<and>
   when' unsaved_prompt \<and>
   confirm_answer (edit_page\<lparr>confirm_answer := (\<lambda>msg. True)\<rparr>) (message unsaved_prompt) \<and>
   asPath (snd (route_change unsaved_prompt ''/posts''
                  (edit_page\<lparr>confirm_answer := (\<lambda>msg. True)\<rparr>))) = ''/posts''"
  using Prompt_gated_by_when [of unsaved_prompt edit_page "''/posts''"]
    Prompt_gated_by_when [of "unsaved_prompt\<lparr>when' := False\<rparr>" edit_page "''/posts''"]
    Prompt_gated_by_when [of unsaved_prompt "edit_page\<lparr>confirm_answer := (\<lambda>msg. True)\<rparr>"
      "''/posts''"]
  by (simp add: unsaved_prompt_def edit_page_def)

end
